theory Spec2Isabelle
  imports Main
begin

section \<open>JavaScript strings\<close>

text \<open>
  A JavaScript string is modelled as a HOL \<open>string\<close>; one \<open>char\<close> stands for one
  code unit below 256. \<open>String.prototype.trim\<close> removes white space and line terminators
  at both ends; in this range these are TAB, LF, VT, FF, CR, SPACE and NBSP.
\<close>

definition is_space :: "char \<Rightarrow> bool" where
  "is_space c \<longleftrightarrow>
     c \<in> set [CHR 0x09, CHR 0x0A, CHR 0x0B, CHR 0x0C, CHR 0x0D, CHR 0x20, CHR 0xA0]"

definition trim :: "string \<Rightarrow> string" where
  "trim s = rev (dropWhile is_space (rev (dropWhile is_space s)))"

text \<open>
  \<open>s.split(sep)\<close> for a separator of one character: the pieces between the separators;
  never an empty array.
\<close>

fun split :: "char \<Rightarrow> string \<Rightarrow> string list" where
  "split sep [] = [[]]"
| "split sep (c # cs) =
     (if c = sep then [] # split sep cs
      else (case split sep cs of [] \<Rightarrow> [[c]] | l # ls \<Rightarrow> (c # l) # ls))"

text \<open>\<open>xs.join(sep)\<close> on an array of strings.\<close>

fun join :: "string \<Rightarrow> string list \<Rightarrow> string" where
  "join sep [] = []"
| "join sep [x] = x"
| "join sep (x # y # ys) = x @ sep @ join sep (y # ys)"

text \<open>The decimal text of a non-negative integer, as a template literal prints it.\<close>

fun nat_to_string :: "nat \<Rightarrow> string" where
  "nat_to_string n =
     (if n < 10 then [''0123456789'' ! n]
      else nat_to_string (n div 10) @ [''0123456789'' ! (n mod 10)])"

text \<open>\<open>s.includes(sub)\<close>: \<open>sub\<close> occurs in \<open>s\<close> as a contiguous piece.\<close>

fun str_includes :: "string \<Rightarrow> string \<Rightarrow> bool" where
  "str_includes [] sub = (sub = [])"
| "str_includes (c # cs) sub = (take (length sub) (c # cs) = sub \<or> str_includes cs sub)"

text \<open>
  Truthiness of a value of type \<open>string | undefined\<close>: \<open>undefined\<close> (\<open>None\<close>) and the
  empty string are falsy.
\<close>

fun truthy :: "string option \<Rightarrow> bool" where
  "truthy None = False"
| "truthy (Some s) = (s \<noteq> [])"

section \<open>Envelopes sent on the WebSocket\<close>

text \<open>
  Every \<open>ws.send(JSON.stringify({type: ..., ...}))\<close> of the two source files sends one of
  four kinds of object. \<open>'d\<close> is the type of the \<open>data\<close> field of a \<open>claude-response\<close>.
  The exit code of a \<open>claude-complete\<close> is \<open>number | null\<close>. A send is taken to
  succeed: it adds the envelope to what the Unit has sent, in order.
\<close>

datatype 'd envelope =
    SessionCreated string
  | ClaudeResponse 'd
  | ErrorEnvelope string
  | ClaudeComplete "int option" bool

fun is_complete :: "'d envelope \<Rightarrow> bool" where
  "is_complete (ClaudeComplete c n) = True"
| "is_complete e = False"

fun is_session_created :: "'d envelope \<Rightarrow> bool" where
  "is_session_created (SessionCreated s) = True"
| "is_session_created e = False"

section \<open>Subprocess mode: \<open>claude-cli.ts\<close>\<close>

text \<open>
  The closure variables of one call of \<open>spawnClaude\<close> (one Unit), together with what the
  Unit has sent on its WebSocket and written with \<open>console.error\<close> from the stdout
  handler. \<open>process\<close> is the identity of the child process returned by \<open>spawn\<close>.
\<close>

record 'j cli_unit =
  process :: nat
  sessionId :: "string option"
  command :: string
  capturedSessionId :: "string option"
  sessionCreatedSent :: bool
  outputBuffer :: string
  errorBuffer :: string
  currentJsonBuffer :: string
  ws_sent :: "'j envelope list"
  console_error :: "string list"

text \<open>
  The module state: the map \<open>activeClaudeProcesses\<close> from session id to child process, and
  the signals delivered with \<open>process.kill\<close>, oldest first.
\<close>

record cli_world =
  activeClaudeProcesses :: "string \<rightharpoonup> nat"
  killed :: "nat list"

definition not_found_hint :: string where
  "not_found_hint =
     ''Claude CLI not found. Please install it first: npm install -g @anthropic-ai/claude-cli''"

text \<open>
  Lines 146 to 168: the closure of a freshly spawned process \<open>p\<close>, and the kill of the
  process registered under the caller's session id. The new process is not stored in the
  map here.
\<close>

definition new_cli_unit :: "nat \<Rightarrow> string option \<Rightarrow> string \<Rightarrow> 'j cli_unit" where
  "new_cli_unit p sid cmd =
     \<lparr>process = p, sessionId = sid, command = cmd, capturedSessionId = sid,
      sessionCreatedSent = False, outputBuffer = [], errorBuffer = [],
      currentJsonBuffer = [], ws_sent = [], console_error = []\<rparr>"

definition cli_kill_existing :: "string option \<Rightarrow> cli_world \<Rightarrow> cli_world" where
  "cli_kill_existing sid w =
     (if truthy sid then
        (case activeClaudeProcesses w (the sid) of
           None \<Rightarrow> w
         | Some existing \<Rightarrow>
             w\<lparr>killed := killed w @ [existing],
               activeClaudeProcesses := (activeClaudeProcesses w)(the sid := None)\<rparr>)
      else w)"

definition spawnClaude ::
  "nat \<Rightarrow> string option \<Rightarrow> string \<Rightarrow> cli_world \<Rightarrow> 'j cli_unit \<times> cli_world" where
  "spawnClaude p sid cmd w = (new_cli_unit p sid cmd, cli_kill_existing sid w)"

text \<open>
  Lines 189 to 222, the body of the loop for one trimmed, non-empty, complete line.
  \<open>JSON_parse\<close> is the runtime's \<open>JSON.parse\<close>: \<open>None\<close> when the \<open>try\<close> block throws
  before anything is sent. \<open>session_id\<close> reads the property \<open>output.session_id\<close>, a
  string in the stream-json format, \<open>None\<close> when it is \<open>undefined\<close>.
\<close>

definition handle_line ::
  "(string \<Rightarrow> 'j option) \<Rightarrow> ('j \<Rightarrow> string option) \<Rightarrow> string \<Rightarrow>
   'j cli_unit \<times> cli_world \<Rightarrow> 'j cli_unit \<times> cli_world" where
  "handle_line JSON_parse session_id line uw =
     (case uw of (u, w) \<Rightarrow>
       (case JSON_parse line of
          None \<Rightarrow>
            (u\<lparr>console_error :=
                 console_error u @ [''Failed to parse Claude output line: '' @ line]\<rparr>, w)
        | Some output \<Rightarrow>
            (if truthy (session_id output) \<and> \<not> truthy (capturedSessionId u) then
               (let captured = the (session_id output);
                    w' = w\<lparr>activeClaudeProcesses :=
                            (activeClaudeProcesses w)(captured \<mapsto> process u)\<rparr>;
                    u' = u\<lparr>capturedSessionId := Some captured\<rparr>;
                    u'' = (if \<not> sessionCreatedSent u'
                           then u'\<lparr>ws_sent := ws_sent u' @ [SessionCreated captured],
                                  sessionCreatedSent := True\<rparr>
                           else u')
                in (u''\<lparr>ws_sent := ws_sent u'' @ [ClaudeResponse output]\<rparr>, w'))
             else (u\<lparr>ws_sent := ws_sent u @ [ClaudeResponse output]\<rparr>, w))))"

text \<open>
  Lines 178 to 223, the loop over \<open>lines\<close>. The last piece, when not blank after
  trimming, is stored trimmed in \<open>currentJsonBuffer\<close>; blank pieces are skipped.
\<close>

fun stdout_loop ::
  "(string \<Rightarrow> 'j option) \<Rightarrow> ('j \<Rightarrow> string option) \<Rightarrow> string list \<Rightarrow>
   'j cli_unit \<times> cli_world \<Rightarrow> 'j cli_unit \<times> cli_world" where
  "stdout_loop JSON_parse session_id [] uw = uw"
| "stdout_loop JSON_parse session_id (l # ls) uw =
     (let line = trim l in
      if ls = [] \<and> line \<noteq> [] then (case uw of (u, w) \<Rightarrow> (u\<lparr>currentJsonBuffer := line\<rparr>, w))
      else if line = [] then stdout_loop JSON_parse session_id ls uw
      else stdout_loop JSON_parse session_id ls (handle_line JSON_parse session_id line uw))"

text \<open>Lines 170 to 224, the handler of \<open>stdout\<close> data.\<close>

definition on_stdout ::
  "(string \<Rightarrow> 'j option) \<Rightarrow> ('j \<Rightarrow> string option) \<Rightarrow> string \<Rightarrow>
   'j cli_unit \<times> cli_world \<Rightarrow> 'j cli_unit \<times> cli_world" where
  "on_stdout JSON_parse session_id chunk uw =
     (case uw of (u, w) \<Rightarrow>
        stdout_loop JSON_parse session_id (split (CHR 0x0A) (currentJsonBuffer u @ chunk))
          (u\<lparr>outputBuffer := outputBuffer u @ chunk, currentJsonBuffer := []\<rparr>, w))"

text \<open>Lines 226 to 243, the handler of \<open>stderr\<close> data.\<close>

definition on_stderr :: "string \<Rightarrow> 'j cli_unit \<times> cli_world \<Rightarrow> 'j cli_unit \<times> cli_world" where
  "on_stderr chunk uw =
     (case uw of (u, w) \<Rightarrow>
        (u\<lparr>errorBuffer := errorBuffer u @ chunk,
           ws_sent := ws_sent u @
             [if str_includes chunk ''not found'' \<or> str_includes chunk ''command not found''
              then ErrorEnvelope not_found_hint else ErrorEnvelope chunk]\<rparr>, w))"

text \<open>
  Lines 245 to 275, the handler of \<open>close\<close>. Removing the temporary directory and settling
  the promise send nothing and leave the map alone; they are left out.
\<close>

definition on_close :: "int option \<Rightarrow> 'j cli_unit \<times> cli_world \<Rightarrow> 'j cli_unit \<times> cli_world" where
  "on_close code uw =
     (case uw of (u, w) \<Rightarrow>
        (u\<lparr>ws_sent := ws_sent u @
             [ClaudeComplete code (\<not> truthy (sessionId u) \<and> command u \<noteq> [])]\<rparr>,
         if truthy (capturedSessionId u)
         then w\<lparr>activeClaudeProcesses :=
                  (activeClaudeProcesses w)(the (capturedSessionId u) := None)\<rparr>
         else w))"

text \<open>
  Lines 277 to 304, the handler of \<open>error\<close> (the process could not be started, killed or
  written to). \<open>enoent\<close> is \<open>error.code === 'ENOENT'\<close>.
\<close>

definition on_error :: "bool \<Rightarrow> string \<Rightarrow> 'j cli_unit \<times> cli_world \<Rightarrow> 'j cli_unit \<times> cli_world" where
  "on_error enoent message uw =
     (case uw of (u, w) \<Rightarrow>
        (u\<lparr>ws_sent := ws_sent u @
             [if enoent then ErrorEnvelope not_found_hint else ErrorEnvelope message]\<rparr>,
         if truthy (capturedSessionId u)
         then w\<lparr>activeClaudeProcesses :=
                  (activeClaudeProcesses w)(the (capturedSessionId u) := None)\<rparr>
         else w))"

text \<open>Lines 315 to 324.\<close>

definition abortClaudeSession :: "string \<Rightarrow> cli_world \<Rightarrow> bool \<times> cli_world" where
  "abortClaudeSession sid w =
     (case activeClaudeProcesses w sid of
        Some p \<Rightarrow>
          (True, w\<lparr>killed := killed w @ [p],
                   activeClaudeProcesses := (activeClaudeProcesses w)(sid := None)\<rparr>)
      | None \<Rightarrow> (False, w))"

text \<open>The events a child process delivers to its handlers, and a run of them in order.\<close>

datatype cli_event =
    Stdout string
  | Stderr string
  | Close "int option"
  | Error bool string

fun cli_step ::
  "(string \<Rightarrow> 'j option) \<Rightarrow> ('j \<Rightarrow> string option) \<Rightarrow> cli_event \<Rightarrow>
   'j cli_unit \<times> cli_world \<Rightarrow> 'j cli_unit \<times> cli_world" where
  "cli_step JSON_parse session_id (Stdout chunk) uw = on_stdout JSON_parse session_id chunk uw"
| "cli_step JSON_parse session_id (Stderr chunk) uw = on_stderr chunk uw"
| "cli_step JSON_parse session_id (Close code) uw = on_close code uw"
| "cli_step JSON_parse session_id (Error enoent message) uw = on_error enoent message uw"

fun cli_run ::
  "(string \<Rightarrow> 'j option) \<Rightarrow> ('j \<Rightarrow> string option) \<Rightarrow> cli_event list \<Rightarrow>
   'j cli_unit \<times> cli_world \<Rightarrow> 'j cli_unit \<times> cli_world" where
  "cli_run JSON_parse session_id [] uw = uw"
| "cli_run JSON_parse session_id (e # es) uw =
     cli_run JSON_parse session_id es (cli_step JSON_parse session_id e uw)"

text \<open>
  What \<open>sessionCreatedSent\<close> records, in terms of what the Unit has sent and captured.
\<close>

definition cli_inv :: "'j cli_unit \<Rightarrow> bool" where
  "cli_inv u \<longleftrightarrow>
     length (filter is_session_created (ws_sent u)) = (if sessionCreatedSent u then 1 else 0) \<and>
     (sessionCreatedSent u \<longleftrightarrow> \<not> truthy (sessionId u) \<and> truthy (capturedSessionId u)) \<and>
     (truthy (sessionId u) \<longrightarrow> capturedSessionId u = sessionId u)"

text \<open>Two states of a Unit that differ at most in what was written to \<open>console.error\<close>.\<close>

definition agree_but_log :: "'j cli_unit \<Rightarrow> 'j cli_unit \<Rightarrow> bool" where
  "agree_but_log u1 u2 \<longleftrightarrow>
     process u1 = process u2 \<and> sessionId u1 = sessionId u2 \<and> command u1 = command u2 \<and>
     capturedSessionId u1 = capturedSessionId u2 \<and>
     sessionCreatedSent u1 = sessionCreatedSent u2 \<and> outputBuffer u1 = outputBuffer u2 \<and>
     errorBuffer u1 = errorBuffer u2 \<and> currentJsonBuffer u1 = currentJsonBuffer u2 \<and>
     ws_sent u1 = ws_sent u2"

fun is_close :: "cli_event \<Rightarrow> bool" where
  "is_close (Close code) = True"
| "is_close e = False"

section \<open>SDK mode: \<open>claude-sdk.ts\<close>\<close>

text \<open>
  The messages the SDK's \<open>query\<close> yields, by their \<open>type\<close> tag, with the fields the source
  reads: \<open>System subtype session_id info\<close>, \<open>User message\<close>,
  \<open>Assistant message session_id\<close>, \<open>Result subtype details\<close>. Fields that are only
  copied are opaque strings.
\<close>

datatype sdk_message =
    System string string string
  | User string
  | Assistant string string
  | Result string string

text \<open>The \<open>data\<close> objects the source builds for its \<open>claude-response\<close> envelopes.\<close>

datatype sdk_data =
    SystemInitData string string
  | AssistantData string string
  | ResultData string string

text \<open>
  The local variables of one call of \<open>startClaudeSession\<close> (one Unit) and what it has sent.
  \<open>abortController\<close> is the identity of the Unit's \<open>AbortController\<close>.
\<close>

record sdk_unit =
  abortController :: nat
  sdk_sessionId :: "string option"
  sdk_command :: string
  sdk_capturedSessionId :: string
  sdk_sessionCreatedSent :: bool
  systemMessageSent :: bool
  sdk_sent :: "sdk_data envelope list"

text \<open>
  The module state: the map \<open>activeSessions\<close> from session id to the registered Unit's
  controller, the controllers on which \<open>abort()\<close> was called (oldest first), and how many
  times \<open>generateSessionId\<close> has run.
\<close>

record sdk_world =
  activeSessions :: "string \<rightharpoonup> nat"
  aborted :: "nat list"
  generated :: nat

text \<open>
  Lines 299 to 301. The argument is what the call reads from its environment: the decimal
  text of \<open>Date.now()\<close> and \<open>Math.random().toString(36).substr(2, 9)\<close>.
\<close>

definition generateSessionId :: "string \<times> string \<Rightarrow> string" where
  "generateSessionId e = ''temp-'' @ fst e @ ''-'' @ snd e"

text \<open>
  \<open>sessionId || generateSessionId()\<close>: the function runs only when \<open>sessionId\<close> is falsy.
  \<open>entropy n\<close> is what the \<open>n\<close>-th run of \<open>generateSessionId\<close> reads.
\<close>

definition sessionId_or_generate ::
  "(nat \<Rightarrow> string \<times> string) \<Rightarrow> string option \<Rightarrow> sdk_world \<Rightarrow> string \<times> sdk_world" where
  "sessionId_or_generate entropy sid w =
     (if truthy sid then (the sid, w)
      else (generateSessionId (entropy (generated w)), w\<lparr>generated := Suc (generated w)\<rparr>))"

text \<open>Lines 16 to 20.\<close>

definition sdk_begin ::
  "(nat \<Rightarrow> string \<times> string) \<Rightarrow> nat \<Rightarrow> string option \<Rightarrow> string \<Rightarrow> sdk_world \<Rightarrow>
   sdk_unit \<times> sdk_world" where
  "sdk_begin entropy ctrl sid cmd w =
     (case sessionId_or_generate entropy sid w of (captured, w') \<Rightarrow>
        (\<lparr>abortController = ctrl, sdk_sessionId = sid, sdk_command = cmd,
          sdk_capturedSessionId = captured, sdk_sessionCreatedSent = False,
          systemMessageSent = False, sdk_sent = []\<rparr>, w'))"

text \<open>Lines 75 to 83.\<close>

definition sdk_kill_existing :: "sdk_unit \<times> sdk_world \<Rightarrow> sdk_unit \<times> sdk_world" where
  "sdk_kill_existing uw =
     (case uw of (u, w) \<Rightarrow>
        (case activeSessions w (sdk_capturedSessionId u) of
           None \<Rightarrow> (u, w)
         | Some existing \<Rightarrow>
             (u, w\<lparr>aborted := aborted w @ [existing],
                    activeSessions := (activeSessions w)(sdk_capturedSessionId u := None)\<rparr>)))"

text \<open>Lines 130 to 136.\<close>

definition sdk_register :: "sdk_unit \<times> sdk_world \<Rightarrow> sdk_unit \<times> sdk_world" where
  "sdk_register uw =
     (case uw of (u, w) \<Rightarrow>
        (u, w\<lparr>activeSessions :=
                 (activeSessions w)(sdk_capturedSessionId u \<mapsto> abortController u)\<rparr>))"

text \<open>Lines 95 to 101, the \<open>stderr\<close> callback.\<close>

definition sdk_on_stderr :: "string \<Rightarrow> sdk_unit \<times> sdk_world \<Rightarrow> sdk_unit \<times> sdk_world" where
  "sdk_on_stderr chunk uw =
     (case uw of (u, w) \<Rightarrow> (u\<lparr>sdk_sent := sdk_sent u @ [ErrorEnvelope chunk]\<rparr>, w))"

text \<open>Lines 141 to 234, the body of the \<open>for await\<close> loop.\<close>

fun sdk_on_message ::
  "(nat \<Rightarrow> string \<times> string) \<Rightarrow> sdk_message \<Rightarrow> sdk_unit \<times> sdk_world \<Rightarrow> sdk_unit \<times> sdk_world" where
  "sdk_on_message entropy (System subtype session_id info) (u, w) =
     (if subtype = ''init'' then
        (let u1 = u\<lparr>sdk_capturedSessionId := session_id\<rparr> in
         case sessionId_or_generate entropy (sdk_sessionId u1) w of (oldSessionId, w1) \<Rightarrow>
         let w2 = (if oldSessionId \<noteq> sdk_capturedSessionId u1
                   then w1\<lparr>activeSessions :=
                            ((activeSessions w1)(oldSessionId := None))
                              (sdk_capturedSessionId u1 \<mapsto> abortController u1)\<rparr>
                   else w1);
             u2 = (if \<not> sdk_sessionCreatedSent u1
                   then u1\<lparr>sdk_sent := sdk_sent u1 @ [SessionCreated (sdk_capturedSessionId u1)],
                           sdk_sessionCreatedSent := True\<rparr>
                   else u1)
         in (u2\<lparr>sdk_sent := sdk_sent u2 @
                   [ClaudeResponse (SystemInitData (sdk_capturedSessionId u2) info)],
                 systemMessageSent := True\<rparr>, w2))
      else (u, w))"
| "sdk_on_message entropy (User message) (u, w) = (u, w)"
| "sdk_on_message entropy (Assistant message session_id) (u, w) =
     (u\<lparr>sdk_sent := sdk_sent u @ [ClaudeResponse (AssistantData message session_id)]\<rparr>, w)"
| "sdk_on_message entropy (Result subtype details) (u, w) =
     (u\<lparr>sdk_sent := sdk_sent u @ [ClaudeResponse (ResultData subtype details)]\<rparr>, w)"

text \<open>
  What reaches the Unit while the query runs: a message of the iteration or a call of the
  \<open>stderr\<close> callback; and how the iteration ends: exhausted, or by throwing an
  \<open>AbortError\<close> or another error with the given \<open>message\<close>.
\<close>

datatype sdk_item = Message sdk_message | StderrData string

datatype sdk_end = Done | AbortError | RuntimeError string

fun sdk_item_step ::
  "(nat \<Rightarrow> string \<times> string) \<Rightarrow> sdk_item \<Rightarrow> sdk_unit \<times> sdk_world \<Rightarrow> sdk_unit \<times> sdk_world" where
  "sdk_item_step entropy (Message m) uw = sdk_on_message entropy m uw"
| "sdk_item_step entropy (StderrData chunk) uw = sdk_on_stderr chunk uw"

fun sdk_items ::
  "(nat \<Rightarrow> string \<times> string) \<Rightarrow> sdk_item list \<Rightarrow> sdk_unit \<times> sdk_world \<Rightarrow> sdk_unit \<times> sdk_world" where
  "sdk_items entropy [] uw = uw"
| "sdk_items entropy (i # is) uw = sdk_items entropy is (sdk_item_step entropy i uw)"

text \<open>The items that are a \<open>system\<close> message of subtype \<open>init\<close>.\<close>

fun is_init :: "sdk_item \<Rightarrow> bool" where
  "is_init (Message (System subtype session_id info)) = (subtype = ''init'')"
| "is_init i = False"

text \<open>
  Lines 236 to 266: the \<open>catch\<close> of the iteration, then the removal from the map and the
  \<open>claude-complete\<close> envelope. Removing the temporary directory sends nothing.
\<close>

definition sdk_finish :: "sdk_end \<Rightarrow> sdk_unit \<times> sdk_world \<Rightarrow> sdk_unit \<times> sdk_world" where
  "sdk_finish e uw =
     (case uw of (u, w) \<Rightarrow>
        (let u1 = (case e of
                     RuntimeError message \<Rightarrow> u\<lparr>sdk_sent := sdk_sent u @ [ErrorEnvelope message]\<rparr>
                   | _ \<Rightarrow> u)
         in (u1\<lparr>sdk_sent := sdk_sent u1 @
                   [ClaudeComplete (Some 0)
                      (\<not> truthy (sdk_sessionId u1) \<and> sdk_command u1 \<noteq> [])]\<rparr>,
             w\<lparr>activeSessions := (activeSessions w)(sdk_capturedSessionId u1 := None)\<rparr>)))"

text \<open>
  Lines 268 to 284, the outer \<open>catch\<close>: \<open>query\<close> threw before the Unit was stored.
  \<open>message\<close> is \<open>error.message\<close>.
\<close>

definition sdk_launch_failed ::
  "string option \<Rightarrow> sdk_unit \<times> sdk_world \<Rightarrow> sdk_unit \<times> sdk_world" where
  "sdk_launch_failed message uw =
     (case uw of (u, w) \<Rightarrow>
        (u\<lparr>sdk_sent := sdk_sent u @
             [ErrorEnvelope (if truthy message then the message
                             else ''Failed to start Claude session'')]\<rparr>,
         w\<lparr>activeSessions := (activeSessions w)(sdk_capturedSessionId u := None)\<rparr>))"

text \<open>
  One whole call of \<open>startClaudeSession\<close>, from its first line to its return, for each way
  the query can go. The envelopes of a Unit depend on its own variables and messages only,
  so steps of other Units in between do not change them.
\<close>

datatype sdk_launch = Launched "sdk_item list" sdk_end | LaunchError "string option"

definition startClaudeSession ::
  "(nat \<Rightarrow> string \<times> string) \<Rightarrow> nat \<Rightarrow> string option \<Rightarrow> string \<Rightarrow> sdk_launch \<Rightarrow> sdk_world \<Rightarrow>
   sdk_unit \<times> sdk_world" where
  "startClaudeSession entropy ctrl sid cmd launch w =
     (let uw = sdk_kill_existing (sdk_begin entropy ctrl sid cmd w) in
      case launch of
        LaunchError message \<Rightarrow> sdk_launch_failed message uw
      | Launched items e \<Rightarrow> sdk_finish e (sdk_items entropy items (sdk_register uw)))"



text \<open>Lines 287 to 296.\<close>

definition sdk_abortClaudeSession :: "string \<Rightarrow> sdk_world \<Rightarrow> bool \<times> sdk_world" where
  "sdk_abortClaudeSession sid w =
     (case activeSessions w sid of
        Some ctrl \<Rightarrow>
          (True, w\<lparr>aborted := aborted w @ [ctrl],
                   activeSessions := (activeSessions w)(sid := None)\<rparr>)
      | None \<Rightarrow> (False, w))"

section \<open>Attachments: the image loop of both files\<close>

text \<open>
  \<open>image.data.match(/^data:([^;]+);base64,(.+)$/)\<close>. The class \<open>[^;]\<close> cannot run over
  a semicolon, so the first group is everything between \<open>data:\<close> and the first semicolon;
  \<open>.\<close> matches no line terminator and \<open>$\<close> only the end of the string. The result is
  the two groups, or \<open>None\<close> for \<open>null\<close>.
\<close>

definition is_line_terminator :: "char \<Rightarrow> bool" where
  "is_line_terminator c \<longleftrightarrow> c = CHR 0x0A \<or> c = CHR 0x0D"

definition match_data_url :: "string \<Rightarrow> (string \<times> string) option" where
  "match_data_url s =
     (if take 5 s = ''data:'' then
        (let mimeType = takeWhile (\<lambda>c. c \<noteq> CHR '';'') (drop 5 s);
             rest = dropWhile (\<lambda>c. c \<noteq> CHR '';'') (drop 5 s);
             base64Data = drop 8 rest
         in if mimeType \<noteq> [] \<and> take 8 rest = '';base64,'' \<and> base64Data \<noteq> [] \<and>
               \<not> list_ex is_line_terminator base64Data
            then Some (mimeType, base64Data) else None)
      else None)"

text \<open>\<open>mimeType.split('/')[1] || 'png'\<close>.\<close>

definition extension_of :: "string \<Rightarrow> string" where
  "extension_of mimeType =
     (case split (CHR ''/'') mimeType of
        a # b # rest \<Rightarrow> (if b \<noteq> [] then b else ''png'')
      | _ \<Rightarrow> ''png'')"

text \<open>
  The file a well-formed image at position \<open>index\<close> is written to. \<open>path_join\<close> is Node's
  \<open>path.join\<close>.
\<close>

definition image_path :: "(string list \<Rightarrow> string) \<Rightarrow> string \<Rightarrow> nat \<Rightarrow> string \<Rightarrow> string" where
  "image_path path_join dir index mimeType =
     path_join [dir, ''image_'' @ nat_to_string index @ ''.'' @ extension_of mimeType]"

text \<open>
  What the image loop leaves behind: the paths pushed on \<open>tempImagePaths\<close> and the calls
  of \<open>fs.writeFile\<close> that succeeded, as (path, bytes), both oldest first.
\<close>

record temp_files =
  tempImagePaths :: "string list"
  written :: "(string \<times> string) list"

text \<open>
  The \<open>for\<close> loop over \<open>images.entries()\<close> (lines 54 to 70 of \<open>claude-cli.ts\<close>, 44 to 60
  of \<open>claude-sdk.ts\<close>), from position \<open>index\<close> on. An image is its \<open>data\<close> string.
  \<open>write_ok path\<close> tells whether \<open>fs.writeFile\<close> to that path succeeds; when it throws,
  the loop is left for the \<open>catch\<close> and the result is flagged \<open>False\<close>.
  \<open>base64_decode\<close> is \<open>Buffer.from(_, 'base64')\<close>.
\<close>

fun save_images ::
  "(string \<Rightarrow> bool) \<Rightarrow> (string \<Rightarrow> string) \<Rightarrow> (string list \<Rightarrow> string) \<Rightarrow> string \<Rightarrow>
   nat \<Rightarrow> string list \<Rightarrow> temp_files \<Rightarrow> bool \<times> temp_files" where
  "save_images write_ok base64_decode path_join dir index [] sb = (True, sb)"
| "save_images write_ok base64_decode path_join dir index (img # images) sb =
     (case match_data_url img of
        None \<Rightarrow> save_images write_ok base64_decode path_join dir (Suc index) images sb
      | Some (mimeType, base64Data) \<Rightarrow>
          (let filepath = image_path path_join dir index mimeType in
           if write_ok filepath
           then save_images write_ok base64_decode path_join dir (Suc index) images
                  (sb\<lparr>written := written sb @ [(filepath, base64_decode base64Data)],
                      tempImagePaths := tempImagePaths sb @ [filepath]\<rparr>)
           else (False, sb)))"

text \<open>
  \<open>tempImagePaths.map((p, i) => `${i + 1}. ${p}`)\<close>, numbering from \<open>i\<close>, and the note
  appended to the command.
\<close>

fun numbered :: "nat \<Rightarrow> string list \<Rightarrow> string list" where
  "numbered i [] = []"
| "numbered i (p # ps) = (nat_to_string (i + 1) @ ''. '' @ p) # numbered (Suc i) ps"

definition imageNote :: "string list \<Rightarrow> string" where
  "imageNote paths =
     [CHR 0x0A, CHR 0x0A] @ ''[Images provided at the following paths:]'' @ [CHR 0x0A] @
     join [CHR 0x0A] (numbered 0 paths)"

text \<open>
  The whole \<open>if (images && images.length > 0) { try ... catch ... }\<close> block: the
  directory (set before \<open>fs.mkdir\<close> runs), the files, and the prompt text handed on
  (\<open>enhancedPrompt\<close> in \<open>claude-sdk.ts\<close>; in \<open>claude-cli.ts\<close> the note is appended to
  the argument after \<open>--print\<close> under the same condition). \<open>now\<close> is
  \<open>Date.now().toString()\<close>.
\<close>

record attachments =
  tempDir :: "string option"
  files :: temp_files
  enhancedPrompt :: string

definition process_images ::
  "bool \<Rightarrow> (string \<Rightarrow> bool) \<Rightarrow> (string \<Rightarrow> string) \<Rightarrow> (string list \<Rightarrow> string) \<Rightarrow>
   string \<Rightarrow> string \<Rightarrow> string \<Rightarrow> string list \<Rightarrow> attachments" where
  "process_images mkdir_ok write_ok base64_decode path_join workingDir now cmd images =
     (if images \<noteq> [] then
        (let dir = path_join [workingDir, ''.tmp'', ''images'', now] in
         if mkdir_ok then
           (case save_images write_ok base64_decode path_join dir 0 images
                   \<lparr>tempImagePaths = [], written = []\<rparr> of
              (finished, sb) \<Rightarrow>
                \<lparr>tempDir = Some dir, files = sb,
                 enhancedPrompt =
                   (if finished \<and> tempImagePaths sb \<noteq> [] \<and> trim cmd \<noteq> []
                    then cmd @ imageNote (tempImagePaths sb) else cmd)\<rparr>)
         else \<lparr>tempDir = Some dir, files = \<lparr>tempImagePaths = [], written = []\<rparr>,
               enhancedPrompt = cmd\<rparr>)
      else \<lparr>tempDir = None, files = \<lparr>tempImagePaths = [], written = []\<rparr>,
            enhancedPrompt = cmd\<rparr>)"

text \<open>
  The files the claim expects: one per image whose data has the form
  \<open>data:<mime>;base64,<payload>\<close>, in order, none for the others.
\<close>

fun well_formed_files ::
  "(string \<Rightarrow> string) \<Rightarrow> (string list \<Rightarrow> string) \<Rightarrow> string \<Rightarrow> nat \<Rightarrow> string list \<Rightarrow>
   (string \<times> string) list" where
  "well_formed_files base64_decode path_join dir index [] = []"
| "well_formed_files base64_decode path_join dir index (img # images) =
     (case match_data_url img of
        None \<Rightarrow> well_formed_files base64_decode path_join dir (Suc index) images
      | Some (mimeType, base64Data) \<Rightarrow>
          (image_path path_join dir index mimeType, base64_decode base64Data) #
          well_formed_files base64_decode path_join dir (Suc index) images)"

section \<open>Concrete environments for the examples\<close>

text \<open>
  \<open>JSON.parse\<close> on the few lines the examples use, with an object given as its list of
  (key, value) pairs, and the \<open>session_id\<close> property of such an object.
\<close>

definition example_parse :: "string \<Rightarrow> (string \<times> string) list option" where
  \<open>example_parse line =
     (if line = ''{"type":"user"}'' then Some [(''type'', ''user'')]
      else if line = ''{"a":"x y"}'' then Some [(''a'', ''x y'')]
      else if line = ''{"a":"xy"}'' then Some [(''a'', ''xy'')]
      else if line = ''{"session_id":"s1"}'' then Some [(''session_id'', ''s1'')]
      else None)\<close>

definition example_session_id :: "(string \<times> string) list \<Rightarrow> string option" where
  "example_session_id output = map_of output ''session_id''"

text \<open>Two runs of \<open>generateSessionId\<close> a few hundred milliseconds apart.\<close>

definition example_entropy :: "nat \<Rightarrow> string \<times> string" where
  "example_entropy n =
     (if n = 0 then (''1700000000000'', ''k3j9x0q2a'') else (''1700000000412'', ''z81mmp04c''))"

text \<open>\<open>path.join\<close> on clean POSIX segments, and file contents shown as their base64 text.\<close>

definition example_path_join :: "string list \<Rightarrow> string" where
  "example_path_join parts = join ''/'' parts"

definition example_decode :: "string \<Rightarrow> string" where
  "example_decode base64Data = base64Data"

definition cli_empty :: cli_world where
  "cli_empty = \<lparr>activeClaudeProcesses = Map.empty, killed = []\<rparr>"

definition sdk_empty :: sdk_world where
  "sdk_empty = \<lparr>activeSessions = Map.empty, aborted = [], generated = 0\<rparr>"

section \<open>Facts used by the examples\<close>

lemmas example_defs =
  example_parse_def example_session_id_def example_entropy_def cli_empty_def sdk_empty_def
  example_path_join_def example_decode_def

lemmas cli_defs =
  on_stdout_def on_stderr_def on_close_def on_error_def spawnClaude_def new_cli_unit_def
  cli_kill_existing_def handle_line_def trim_def is_space_def

lemmas sdk_defs =
  startClaudeSession_def sdk_begin_def sessionId_or_generate_def generateSessionId_def
  sdk_kill_existing_def sdk_register_def sdk_on_stderr_def sdk_finish_def
  sdk_launch_failed_def

section \<open>What the handlers of a subprocess Unit keep\<close>

text \<open>
  No handler changes \<open>sessionId\<close>, \<open>command\<close> or \<open>process\<close>, and only the \<open>close\<close> handler
  sends a \<open>claude-complete\<close> envelope. Proved for one line, for the loop by induction on
  the lines, for one event, and for a run by induction on the events.
\<close>

lemma handle_line_fields:
  "sessionId (fst (handle_line P S line uw)) = sessionId (fst uw) \<and>
   command (fst (handle_line P S line uw)) = command (fst uw) \<and>
   process (fst (handle_line P S line uw)) = process (fst uw) \<and>
   filter is_complete (ws_sent (fst (handle_line P S line uw))) = filter is_complete (ws_sent (fst uw))"
  by (cases uw) (simp add: handle_line_def Let_def split: option.splits)

lemma stdout_loop_fields:
  "sessionId (fst (stdout_loop P S ls uw)) = sessionId (fst uw) \<and>
   command (fst (stdout_loop P S ls uw)) = command (fst uw) \<and>
   process (fst (stdout_loop P S ls uw)) = process (fst uw) \<and>
   filter is_complete (ws_sent (fst (stdout_loop P S ls uw))) = filter is_complete (ws_sent (fst uw))"
proof (induction ls arbitrary: uw)
  case Nil
  show ?case by simp
next
  case (Cons l ls)
  show ?case
    using Cons.IH [of uw] Cons.IH [of "handle_line P S (trim l) uw"]
          handle_line_fields [of P S "trim l" uw]
    by (cases uw) (simp add: Let_def)
qed

lemma cli_step_fields:
  "sessionId (fst (cli_step P S e uw)) = sessionId (fst uw) \<and>
   command (fst (cli_step P S e uw)) = command (fst uw) \<and>
   process (fst (cli_step P S e uw)) = process (fst uw) \<and>
   (\<not> is_close e \<longrightarrow>
     filter is_complete (ws_sent (fst (cli_step P S e uw))) = filter is_complete (ws_sent (fst uw)))"
proof (cases uw)
  case (Pair u w)
  show ?thesis
  proof (cases e)
    case (Stdout chunk)
    show ?thesis
      using stdout_loop_fields [of P S "split (CHR 0x0A) (currentJsonBuffer u @ chunk)"
              "(u\<lparr>outputBuffer := outputBuffer u @ chunk, currentJsonBuffer := []\<rparr>, w)"]
      by (simp add: Stdout Pair on_stdout_def)
  next
    case (Stderr chunk)
    then show ?thesis by (simp add: Pair on_stderr_def)
  next
    case (Close code)
    then show ?thesis by (simp add: Pair on_close_def)
  next
    case (Error enoent message)
    then show ?thesis by (simp add: Pair on_error_def)
  qed
qed

lemma cli_run_fields:
  "sessionId (fst (cli_run P S evs uw)) = sessionId (fst uw) \<and>
   command (fst (cli_run P S evs uw)) = command (fst uw) \<and>
   process (fst (cli_run P S evs uw)) = process (fst uw) \<and>
   (\<not> list_ex is_close evs \<longrightarrow>
     filter is_complete (ws_sent (fst (cli_run P S evs uw))) = filter is_complete (ws_sent (fst uw)))"
proof (induction evs arbitrary: uw)
  case Nil
  show ?case by simp
next
  case (Cons e evs)
  show ?case
    using Cons.IH [of "cli_step P S e uw"] cli_step_fields [of P S e uw]
    by simp
qed

lemma cli_run_append:
  "cli_run P S (evs @ evs') uw = cli_run P S evs' (cli_run P S evs uw)"
  by (induction evs arbitrary: uw) simp_all

text \<open>The invariant \<open>cli_inv\<close> holds after \<open>spawnClaude\<close> and is kept by every handler.\<close>

lemma truthy_the: "truthy x \<Longrightarrow> the x \<noteq> []"
  by (cases x) simp_all

lemma handle_line_inv:
  "cli_inv (fst uw) \<Longrightarrow> cli_inv (fst (handle_line P S line uw))"
  by (cases uw)
     (auto simp add: cli_inv_def handle_line_def Let_def truthy_the split: option.splits)

lemma cli_inv_buffers:
  "cli_inv (u\<lparr>currentJsonBuffer := b\<rparr>) = cli_inv u"
  "cli_inv (u\<lparr>outputBuffer := c, currentJsonBuffer := b\<rparr>) = cli_inv u"
  by (simp_all add: cli_inv_def)

lemma stdout_loop_inv:
  "cli_inv (fst uw) \<Longrightarrow> cli_inv (fst (stdout_loop P S ls uw))"
proof (induction ls arbitrary: uw)
  case Nil
  then show ?case by simp
next
  case (Cons l ls)
  obtain u w where uw: "uw = (u, w)" by (cases uw)
  have h: "cli_inv (fst (handle_line P S (trim l) uw))"
    using Cons.prems by (rule handle_line_inv)
  show ?case
  proof (cases "ls = [] \<and> trim l \<noteq> []")
    case True
    then show ?thesis using Cons.prems by (simp add: uw cli_inv_buffers)
  next
    case False
    then show ?thesis
      using Cons.IH [OF Cons.prems] Cons.IH [OF h] by (auto simp add: Let_def)
  qed
qed

lemma cli_step_inv:
  "cli_inv (fst uw) \<Longrightarrow> cli_inv (fst (cli_step P S e uw))"
proof (cases uw)
  case (Pair u w)
  assume inv: "cli_inv (fst uw)"
  show ?thesis
  proof (cases e)
    case (Stdout chunk)
    have "cli_inv (fst (u\<lparr>outputBuffer := outputBuffer u @ chunk, currentJsonBuffer := []\<rparr>, w))"
      using inv Pair by (simp add: cli_inv_def)
    then have "cli_inv (fst (stdout_loop P S (split (CHR 0x0A) (currentJsonBuffer u @ chunk))
       (u\<lparr>outputBuffer := outputBuffer u @ chunk, currentJsonBuffer := []\<rparr>, w)))"
      by (rule stdout_loop_inv)
    then show ?thesis
      by (simp add: Stdout Pair on_stdout_def)
  next
    case (Stderr chunk)
    then show ?thesis using inv by (simp add: Pair on_stderr_def cli_inv_def)
  next
    case (Close code)
    then show ?thesis using inv by (simp add: Pair on_close_def cli_inv_def)
  next
    case (Error enoent message)
    then show ?thesis using inv by (simp add: Pair on_error_def cli_inv_def)
  qed
qed

lemma cli_run_inv:
  "cli_inv (fst uw) \<Longrightarrow> cli_inv (fst (cli_run P S evs uw))"
  by (induction evs arbitrary: uw) (simp_all add: cli_step_inv)

lemma spawn_inv: "cli_inv (fst (spawnClaude p sid cmd w))"
  by (simp add: cli_inv_def spawnClaude_def new_cli_unit_def)

lemma latch_iff_sent:
  "cli_inv u \<Longrightarrow> sessionCreatedSent u \<longleftrightarrow> list_ex is_session_created (ws_sent u)"
proof -
  assume "cli_inv u"
  then have "length (filter is_session_created (ws_sent u)) =
      (if sessionCreatedSent u then 1 else 0)"
    by (simp add: cli_inv_def)
  moreover have "list_ex is_session_created (ws_sent u) \<longleftrightarrow>
      filter is_session_created (ws_sent u) \<noteq> []"
    by (simp add: list_ex_iff filter_empty_conv)
  ultimately show ?thesis by (cases "sessionCreatedSent u") auto
qed

text \<open>
  The map and the latch: a process that is in no entry stays so until
  \<open>sessionCreatedSent\<close> is set; an empty map stays empty until then; and when no parsed
  line carries a session id the latch is never set.
\<close>

lemma handle_line_unregistered:
  "(\<forall>k. activeClaudeProcesses (snd uw) k \<noteq> Some (process (fst uw))) \<or> sessionCreatedSent (fst uw) \<Longrightarrow>
   (\<forall>k. activeClaudeProcesses (snd (handle_line P S line uw)) k \<noteq> Some (process (fst uw))) \<or>
     sessionCreatedSent (fst (handle_line P S line uw))"
  by (cases uw) (auto simp add: handle_line_def Let_def split: option.splits)

lemma handle_line_empty:
  "activeClaudeProcesses (snd uw) = Map.empty \<or> sessionCreatedSent (fst uw) \<Longrightarrow>
   activeClaudeProcesses (snd (handle_line P S line uw)) = Map.empty \<or>
     sessionCreatedSent (fst (handle_line P S line uw))"
  by (cases uw) (auto simp add: handle_line_def Let_def split: option.splits)

lemma handle_line_no_id:
  "\<forall>l output. P l = Some output \<longrightarrow> \<not> truthy (S output) \<Longrightarrow>
   sessionCreatedSent (fst (handle_line P S line uw)) = sessionCreatedSent (fst uw)"
  by (cases uw) (auto simp add: handle_line_def Let_def split: option.splits)

lemma stdout_loop_unregistered:
  "(\<forall>k. activeClaudeProcesses (snd uw) k \<noteq> Some (process (fst uw))) \<or> sessionCreatedSent (fst uw) \<Longrightarrow>
   (\<forall>k. activeClaudeProcesses (snd (stdout_loop P S ls uw)) k \<noteq> Some (process (fst uw))) \<or>
     sessionCreatedSent (fst (stdout_loop P S ls uw))"
proof (induction ls arbitrary: uw)
  case Nil
  then show ?case by simp
next
  case (Cons l ls)
  obtain u w where uw: "uw = (u, w)" by (cases uw)
  have p: "process (fst (handle_line P S (trim l) uw)) = process (fst uw)"
    using handle_line_fields [of P S "trim l" uw] by simp
  have h: "(\<forall>k. activeClaudeProcesses (snd (handle_line P S (trim l) uw)) k \<noteq>
               Some (process (fst (handle_line P S (trim l) uw)))) \<or>
           sessionCreatedSent (fst (handle_line P S (trim l) uw))"
    using handle_line_unregistered [OF Cons.prems, of P S "trim l"] p by simp
  show ?case
  proof (cases "ls = [] \<and> trim l \<noteq> []")
    case True
    then show ?thesis using Cons.prems by (simp add: uw)
  next
    case False
    then show ?thesis
      using Cons.IH [OF Cons.prems] Cons.IH [OF h] p by (auto simp add: Let_def)
  qed
qed

lemma stdout_loop_empty:
  "activeClaudeProcesses (snd uw) = Map.empty \<or> sessionCreatedSent (fst uw) \<Longrightarrow>
   activeClaudeProcesses (snd (stdout_loop P S ls uw)) = Map.empty \<or>
     sessionCreatedSent (fst (stdout_loop P S ls uw))"
proof (induction ls arbitrary: uw)
  case Nil
  then show ?case by simp
next
  case (Cons l ls)
  obtain u w where uw: "uw = (u, w)" by (cases uw)
  have h: "activeClaudeProcesses (snd (handle_line P S (trim l) uw)) = Map.empty \<or>
           sessionCreatedSent (fst (handle_line P S (trim l) uw))"
    using Cons.prems by (rule handle_line_empty)
  show ?case
  proof (cases "ls = [] \<and> trim l \<noteq> []")
    case True
    then show ?thesis using Cons.prems by (simp add: uw)
  next
    case False
    then show ?thesis
      using Cons.IH [OF Cons.prems] Cons.IH [OF h] by (auto simp add: Let_def)
  qed
qed

lemma stdout_loop_no_id:
  "\<forall>l output. P l = Some output \<longrightarrow> \<not> truthy (S output) \<Longrightarrow>
   sessionCreatedSent (fst (stdout_loop P S ls uw)) = sessionCreatedSent (fst uw)"
proof (induction ls arbitrary: uw)
  case Nil
  then show ?case by simp
next
  case (Cons l ls)
  obtain u w where uw: "uw = (u, w)" by (cases uw)
  show ?case
    using Cons.IH [OF Cons.prems, of uw] Cons.IH [OF Cons.prems, of "handle_line P S (trim l) uw"]
      handle_line_no_id [OF Cons.prems, of "trim l" uw]
    by (simp add: Let_def uw)
qed

lemma cli_step_registry:
  "((\<forall>k. activeClaudeProcesses (snd uw) k \<noteq> Some (process (fst uw))) \<or> sessionCreatedSent (fst uw) \<longrightarrow>
    (\<forall>k. activeClaudeProcesses (snd (cli_step P S e uw)) k \<noteq> Some (process (fst uw))) \<or>
      sessionCreatedSent (fst (cli_step P S e uw))) \<and>
   (activeClaudeProcesses (snd uw) = Map.empty \<or> sessionCreatedSent (fst uw) \<longrightarrow>
    activeClaudeProcesses (snd (cli_step P S e uw)) = Map.empty \<or>
      sessionCreatedSent (fst (cli_step P S e uw))) \<and>
   ((\<forall>l output. P l = Some output \<longrightarrow> \<not> truthy (S output)) \<longrightarrow>
    sessionCreatedSent (fst (cli_step P S e uw)) = sessionCreatedSent (fst uw))"
proof (cases uw)
  case (Pair u w)
  show ?thesis
  proof (cases e)
    case (Stdout chunk)
    let ?uw = "(u\<lparr>outputBuffer := outputBuffer u @ chunk, currentJsonBuffer := []\<rparr>, w)"
    let ?ls = "split (CHR 0x0A) (currentJsonBuffer u @ chunk)"
    show ?thesis
      using stdout_loop_unregistered [of ?uw P S ?ls] stdout_loop_empty [of ?uw P S ?ls]
        stdout_loop_no_id [of P S ?ls ?uw]
      by (simp add: Stdout Pair on_stdout_def)
  next
    case (Stderr chunk)
    then show ?thesis by (simp add: Pair on_stderr_def)
  next
    case (Close code)
    then show ?thesis by (simp add: Pair on_close_def)
  next
    case (Error enoent message)
    then show ?thesis by (simp add: Pair on_error_def)
  qed
qed

lemma cli_run_registry:
  "((\<forall>k. activeClaudeProcesses (snd uw) k \<noteq> Some (process (fst uw))) \<or> sessionCreatedSent (fst uw) \<longrightarrow>
    (\<forall>k. activeClaudeProcesses (snd (cli_run P S evs uw)) k \<noteq> Some (process (fst uw))) \<or>
      sessionCreatedSent (fst (cli_run P S evs uw))) \<and>
   (activeClaudeProcesses (snd uw) = Map.empty \<or> sessionCreatedSent (fst uw) \<longrightarrow>
    activeClaudeProcesses (snd (cli_run P S evs uw)) = Map.empty \<or>
      sessionCreatedSent (fst (cli_run P S evs uw))) \<and>
   ((\<forall>l output. P l = Some output \<longrightarrow> \<not> truthy (S output)) \<longrightarrow>
    sessionCreatedSent (fst (cli_run P S evs uw)) = sessionCreatedSent (fst uw))"
proof (induction evs arbitrary: uw)
  case Nil
  show ?case by simp
next
  case (Cons e evs)
  have p: "process (fst (cli_step P S e uw)) = process (fst uw)"
    using cli_step_fields [of P S e uw] by simp
  show ?case
    using Cons.IH [of "cli_step P S e uw"] cli_step_registry [of uw P S e]
    unfolding cli_run.simps p
    by blast
qed

text \<open>
  What is written to \<open>console.error\<close> never influences anything else: from two states
  that agree but for the log, the loop reaches two states that agree but for the log, and
  the same map.
\<close>

lemma handle_line_agree:
  "agree_but_log u1 u2 \<Longrightarrow>
   agree_but_log (fst (handle_line P S line (u1, w))) (fst (handle_line P S line (u2, w))) \<and>
   snd (handle_line P S line (u1, w)) = snd (handle_line P S line (u2, w))"
  by (simp add: agree_but_log_def handle_line_def Let_def split: option.splits)

lemma stdout_loop_agree:
  "agree_but_log u1 u2 \<Longrightarrow>
   agree_but_log (fst (stdout_loop P S ls (u1, w))) (fst (stdout_loop P S ls (u2, w))) \<and>
   snd (stdout_loop P S ls (u1, w)) = snd (stdout_loop P S ls (u2, w))"
proof (induction ls arbitrary: u1 u2 w)
  case Nil
  then show ?case by simp
next
  case (Cons l ls)
  let ?h1 = "handle_line P S (trim l) (u1, w)"
  let ?h2 = "handle_line P S (trim l) (u2, w)"
  have h: "agree_but_log (fst ?h1) (fst ?h2)" "snd ?h1 = snd ?h2"
    using handle_line_agree [OF Cons.prems, of P S "trim l" w] by simp_all
  show ?case
  proof (cases "ls = [] \<and> trim l \<noteq> []")
    case True
    then show ?thesis using Cons.prems by (simp add: agree_but_log_def)
  next
    case False
    show ?thesis
    proof (cases "trim l = []")
      case True
      then show ?thesis using Cons.IH [OF Cons.prems, of w] by simp
    next
      case nonempty: False
      have "?h1 = (fst ?h1, snd ?h1)" "?h2 = (fst ?h2, snd ?h1)"
        using h(2) by (simp_all add: prod_eq_iff)
      then have "stdout_loop P S (l # ls) (u1, w) = stdout_loop P S ls (fst ?h1, snd ?h1)"
           "stdout_loop P S (l # ls) (u2, w) = stdout_loop P S ls (fst ?h2, snd ?h1)"
        using False nonempty by (simp_all add: Let_def)
      then show ?thesis using Cons.IH [OF h(1), of "snd ?h1"] by simp
    qed
  qed
qed

text \<open>
  What the \<open>stdout\<close> handler holds back for the next chunk is the last piece after
  trimming, for every chunk and every state.
\<close>

lemma split_not_empty: "split sep s \<noteq> []"
  by (induction s) (simp_all split: list.splits)

lemma handle_line_buffer:
  "currentJsonBuffer (fst (handle_line P S line uw)) = currentJsonBuffer (fst uw)"
  by (cases uw) (simp add: handle_line_def Let_def split: option.splits)

lemma stdout_loop_buffer:
  "ls \<noteq> [] \<Longrightarrow>
   currentJsonBuffer (fst (stdout_loop P S ls uw)) =
     (if trim (last ls) \<noteq> [] then trim (last ls) else currentJsonBuffer (fst uw))"
proof (induction ls arbitrary: uw)
  case Nil
  then show ?case by simp
next
  case (Cons l ls)
  obtain u w where uw: "uw = (u, w)" by (cases uw)
  show ?case
  proof (cases "ls = []")
    case True
    then show ?thesis by (simp add: uw)
  next
    case False
    then show ?thesis
      using Cons.IH [OF False, of uw] Cons.IH [OF False, of "handle_line P S (trim l) uw"]
        handle_line_buffer [of P S "trim l" uw]
      by (simp add: Let_def)
  qed
qed

lemma carried_over_is_trimmed:
  "currentJsonBuffer (fst (on_stdout P S chunk (u, w))) =
     trim (last (split (CHR 0x0A) (currentJsonBuffer u @ chunk)))"
  using stdout_loop_buffer
    [where ls = "split (CHR 0x0A) (currentJsonBuffer u @ chunk)" and P = P and S = S and
       uw = "(u\<lparr>outputBuffer := outputBuffer u @ chunk, currentJsonBuffer := []\<rparr>, w)"]
  by (simp add: on_stdout_def split_not_empty)





section \<open>What the message loop of an SDK Unit keeps\<close>

text \<open>
  The loop changes neither \<open>sessionId\<close> nor \<open>command\<close> and sends no \<open>claude-complete\<close>;
  \<open>sessionCreatedSent\<close> counts the \<open>session-created\<close> envelopes and is set by the first
  \<open>system\<close> message of subtype \<open>init\<close>.
\<close>

lemma sdk_on_message_fields:
  "sdk_sessionId (fst (sdk_on_message en m uw)) = sdk_sessionId (fst uw) \<and>
   sdk_command (fst (sdk_on_message en m uw)) = sdk_command (fst uw) \<and>
   abortController (fst (sdk_on_message en m uw)) = abortController (fst uw) \<and>
   filter is_complete (sdk_sent (fst (sdk_on_message en m uw))) =
     filter is_complete (sdk_sent (fst uw))"
  by (cases uw; cases m) (simp_all add: Let_def split: prod.splits)

lemma sdk_item_step_fields:
  "sdk_sessionId (fst (sdk_item_step en i uw)) = sdk_sessionId (fst uw) \<and>
   sdk_command (fst (sdk_item_step en i uw)) = sdk_command (fst uw) \<and>
   abortController (fst (sdk_item_step en i uw)) = abortController (fst uw) \<and>
   filter is_complete (sdk_sent (fst (sdk_item_step en i uw))) =
     filter is_complete (sdk_sent (fst uw))"
proof (cases i)
  case (Message m)
  then show ?thesis using sdk_on_message_fields [of en m uw] by simp
next
  case (StderrData chunk)
  then show ?thesis by (cases uw) (simp add: sdk_on_stderr_def)
qed

lemma sdk_items_fields:
  "sdk_sessionId (fst (sdk_items en items uw)) = sdk_sessionId (fst uw) \<and>
   sdk_command (fst (sdk_items en items uw)) = sdk_command (fst uw) \<and>
   abortController (fst (sdk_items en items uw)) = abortController (fst uw) \<and>
   filter is_complete (sdk_sent (fst (sdk_items en items uw))) =
     filter is_complete (sdk_sent (fst uw))"
proof (induction items arbitrary: uw)
  case Nil
  show ?case by simp
next
  case (Cons i items)
  show ?case
    using Cons.IH [of "sdk_item_step en i uw"] sdk_item_step_fields [of en i uw]
    by simp
qed

lemma sdk_launched_start:
  "fst (sdk_register (sdk_kill_existing (sdk_begin en ctrl sid cmd v))) =
     \<lparr>abortController = ctrl, sdk_sessionId = sid, sdk_command = cmd,
      sdk_capturedSessionId = fst (sessionId_or_generate en sid v),
      sdk_sessionCreatedSent = False, systemMessageSent = False, sdk_sent = []\<rparr>"
  by (simp add: sdk_register_def sdk_kill_existing_def sdk_begin_def
        split: prod.splits option.splits)

lemma sdk_on_message_latch:
  "length (filter is_session_created (sdk_sent (fst uw))) =
     (if sdk_sessionCreatedSent (fst uw) then 1 else 0) \<Longrightarrow>
   length (filter is_session_created (sdk_sent (fst (sdk_item_step en i uw)))) =
     (if sdk_sessionCreatedSent (fst (sdk_item_step en i uw)) then 1 else 0) \<and>
   (sdk_sessionCreatedSent (fst (sdk_item_step en i uw)) \<longleftrightarrow>
      sdk_sessionCreatedSent (fst uw) \<or> is_init i)"
proof (cases uw)
  case (Pair u w)
  assume a: "length (filter is_session_created (sdk_sent (fst uw))) =
     (if sdk_sessionCreatedSent (fst uw) then 1 else 0)"
  show ?thesis
  proof (cases i)
    case (Message m)
    then show ?thesis using a Pair
      by (cases m) (auto simp add: Let_def split: prod.splits)
  next
    case (StderrData chunk)
    then show ?thesis using a Pair by (simp add: sdk_on_stderr_def)
  qed
qed

lemma sdk_items_latch:
  "length (filter is_session_created (sdk_sent (fst uw))) =
     (if sdk_sessionCreatedSent (fst uw) then 1 else 0) \<Longrightarrow>
   length (filter is_session_created (sdk_sent (fst (sdk_items en items uw)))) =
     (if sdk_sessionCreatedSent (fst (sdk_items en items uw)) then 1 else 0) \<and>
   (sdk_sessionCreatedSent (fst (sdk_items en items uw)) \<longleftrightarrow>
      sdk_sessionCreatedSent (fst uw) \<or> list_ex is_init items)"
proof (induction items arbitrary: uw)
  case Nil
  then show ?case by simp
next
  case (Cons i items)
  show ?case
    using Cons.IH [of "sdk_item_step en i uw"] sdk_on_message_latch [OF Cons.prems, of en i]
    by simp
qed






section \<open>The image loop\<close>

text \<open>
  The files written are always an initial part of the files of the well-formed images,
  and all of them when every write succeeds. Induction on the images, with the position
  and the files so far generalised.
\<close>

lemma save_images_prefix:
  "\<exists>rest. written sb @ well_formed_files D J dir i images =
            written (snd (save_images W D J dir i images sb)) @ rest"
proof (induction images arbitrary: i sb)
  case Nil
  show ?case by simp
next
  case (Cons img images)
  show ?case
  proof (cases "match_data_url img")
    case None
    then show ?thesis using Cons.IH [of sb "Suc i"] by simp
  next
    case (Some mb)
    obtain m b where mb: "mb = (m, b)" by (cases mb)
    show ?thesis
    proof (cases "W (image_path J dir i m)")
      case True
      then show ?thesis
        using Cons.IH [of "sb\<lparr>written := written sb @ [(image_path J dir i m, D b)],
                 tempImagePaths := tempImagePaths sb @ [image_path J dir i m]\<rparr>" "Suc i"]
        by (simp add: Some mb Let_def)
    next
      case False
      then show ?thesis by (simp add: Some mb Let_def)
    qed
  qed
qed

lemma save_images_all:
  "\<forall>path. W path \<Longrightarrow>
   save_images W D J dir i images sb =
     (True, sb\<lparr>written := written sb @ well_formed_files D J dir i images,
              tempImagePaths := tempImagePaths sb @ map fst (well_formed_files D J dir i images)\<rparr>)"
proof (induction images arbitrary: i sb)
  case Nil
  show ?case by simp
next
  case (Cons img images)
  show ?case
  proof (cases "match_data_url img")
    case None
    then show ?thesis using Cons.IH [OF Cons.prems, of "Suc i" sb] by simp
  next
    case (Some mb)
    obtain m b where mb: "mb = (m, b)" by (cases mb)
    show ?thesis
      using Cons.prems
        Cons.IH [OF Cons.prems, of "Suc i" "sb\<lparr>written := written sb @ [(image_path J dir i m, D b)],
                 tempImagePaths := tempImagePaths sb @ [image_path J dir i m]\<rparr>"]
      by (simp add: Some mb Let_def)
  qed
qed

lemma save_images_none:
  "\<forall>img \<in> set images. match_data_url img = None \<Longrightarrow>
   save_images W D J dir i images sb = (True, sb)"
  by (induction images arbitrary: i) simp_all

section \<open>Termination and the terminal envelope\<close>

text \<open>
  Where \<open>claude-complete\<close> is sent. Subprocess mode: as long as no \<open>close\<close> event has been
  handled none has been sent, and the \<open>close\<close> handler appends exactly one, carrying the
  exit code and the new-session flag, after everything sent before. SDK mode: when the
  query was started, however the iteration ends (exhausted, aborted or failed), the
  envelopes contain exactly one \<open>claude-complete\<close>, with exit code 0, and it is the last
  one; when the query could not be started, the only envelope is one \<open>error\<close>.
\<close>

lemma complete_is_last:
  "(\<not> list_ex is_close evs \<longrightarrow>
      filter is_complete (ws_sent (fst (cli_run P S evs (spawnClaude p sid cmd w)))) = [] \<and>
      ws_sent (fst (cli_run P S (evs @ [Close code]) (spawnClaude p sid cmd w))) =
        ws_sent (fst (cli_run P S evs (spawnClaude p sid cmd w))) @
        [ClaudeComplete code (\<not> truthy sid \<and> cmd \<noteq> [])]) \<and>
   last (sdk_sent (fst (startClaudeSession en ctrl sid cmd (Launched items e) v))) =
     ClaudeComplete (Some 0) (\<not> truthy sid \<and> cmd \<noteq> []) \<and>
   length (filter is_complete
     (sdk_sent (fst (startClaudeSession en ctrl sid cmd (Launched items e) v)))) = 1 \<and>
   sdk_sent (fst (startClaudeSession en ctrl sid cmd (LaunchError message) v)) =
     [ErrorEnvelope (if truthy message then the message else ''Failed to start Claude session'')]"
proof -
  let ?u0 = "spawnClaude p sid cmd w :: 'a cli_unit \<times> cli_world"
  have cli: "\<not> list_ex is_close evs \<Longrightarrow>
      filter is_complete (ws_sent (fst (cli_run P S evs ?u0))) = [] \<and>
      ws_sent (fst (cli_run P S (evs @ [Close code]) ?u0)) =
        ws_sent (fst (cli_run P S evs ?u0)) @ [ClaudeComplete code (\<not> truthy sid \<and> cmd \<noteq> [])]"
  proof -
    assume nc: "\<not> list_ex is_close evs"
    have f: "sessionId (fst (cli_run P S evs ?u0)) = sid"
            "command (fst (cli_run P S evs ?u0)) = cmd"
            "filter is_complete (ws_sent (fst (cli_run P S evs ?u0))) = []"
      using cli_run_fields [of P S evs ?u0] nc
      by (simp_all add: spawnClaude_def new_cli_unit_def)
    show ?thesis
      using f by (cases "cli_run P S evs ?u0") (simp add: cli_run_append on_close_def)
  qed
  let ?r = "sdk_register (sdk_kill_existing (sdk_begin en ctrl sid cmd v))"
  have g: "sdk_sessionId (fst (sdk_items en items ?r)) = sid"
          "sdk_command (fst (sdk_items en items ?r)) = cmd"
          "filter is_complete (sdk_sent (fst (sdk_items en items ?r))) = []"
    using sdk_items_fields [of en items ?r] by (simp_all add: sdk_launched_start)
  have sdk1: "last (sdk_sent (fst (startClaudeSession en ctrl sid cmd (Launched items e) v))) =
     ClaudeComplete (Some 0) (\<not> truthy sid \<and> cmd \<noteq> [])"
    using g by (cases "sdk_items en items ?r"; cases e)
      (simp_all add: startClaudeSession_def sdk_finish_def Let_def)
  have sdk2: "length (filter is_complete
     (sdk_sent (fst (startClaudeSession en ctrl sid cmd (Launched items e) v)))) = 1"
    using g by (cases "sdk_items en items ?r"; cases e)
      (simp_all add: startClaudeSession_def sdk_finish_def Let_def)
  have sdk3: "sdk_sent (fst (startClaudeSession en ctrl sid cmd (LaunchError message) v)) =
     [ErrorEnvelope (if truthy message then the message else ''Failed to start Claude session'')]"
    by (simp add: startClaudeSession_def sdk_launch_failed_def sdk_kill_existing_def sdk_begin_def
          Let_def split: prod.splits option.splits)
  show ?thesis using cli sdk1 sdk2 sdk3 by blast
qed

text \<open>
  Claim C1 at a launch failure. SDK mode: \<open>query\<close> throws, the outer \<open>catch\<close> sends one
  \<open>error\<close> envelope and the call returns; no \<open>claude-complete\<close> is sent at all. The
  same failure raised by the iteration instead is followed by \<open>claude-complete\<close>, and so
  is a failed spawn in subprocess mode, where the \<open>error\<close> event is followed by the
  \<open>close\<close> event.
\<close>

theorem launch_failure_sends_no_complete:
  "sdk_sent (fst (startClaudeSession example_entropy 1 None ''list files''
       (LaunchError (Some ''spawn claude ENOENT'')) sdk_empty)) =
     [ErrorEnvelope ''spawn claude ENOENT''] \<and>
   sdk_sent (fst (startClaudeSession example_entropy 1 None ''list files''
       (Launched [] (RuntimeError ''spawn claude ENOENT'')) sdk_empty)) =
     [ErrorEnvelope ''spawn claude ENOENT'', ClaudeComplete (Some 0) True] \<and>
   ws_sent (fst (cli_run example_parse example_session_id
       [Error True ''spawn claude ENOENT'', Close (Some (- 2))]
       (spawnClaude 1 None ''list files'' cli_empty))) =
     [ErrorEnvelope not_found_hint, ClaudeComplete (Some (- 2)) True]"
  by (simp add: sdk_defs cli_defs example_defs)

section \<open>The \<open>session-created\<close> envelope\<close>

text \<open>
  Claim C2, as stated, at an SDK run without a \<open>system\<close> message and at a subprocess
  run resumed under the caller's session id: each Unit relays a message that carries a
  session id and completes without ever sending \<open>session-created\<close>.
\<close>

theorem no_session_created_without_init:
  \<open>sdk_sent (fst (startClaudeSession example_entropy 1 None ''list files''
       (Launched [Message (Assistant ''hello'' ''abc'')] Done) sdk_empty)) =
     [ClaudeResponse (AssistantData ''hello'' ''abc''), ClaudeComplete (Some 0) True] \<and>
   ws_sent (fst (cli_run example_parse example_session_id
       [Stdout ''{"session_id":"s1"}\<newline>'', Close (Some 0)]
       (spawnClaude 1 (Some ''s1'') ''continue'' cli_empty))) =
     [ClaudeResponse [(''session_id'', ''s1'')], ClaudeComplete (Some 0) False]\<close>
  by (simp add: sdk_defs cli_defs example_defs Let_def)

text \<open>
  Claim C2, amended. A Unit sends at most one \<open>session-created\<close> envelope, never a
  second one. In subprocess mode it sends exactly one when the caller gave no session id
  and one was captured from stdout, and none otherwise. In SDK mode it sends exactly one
  when the message stream holds a \<open>system\<close> message of subtype \<open>init\<close>, and none
  otherwise, nor when the query could not be started. The envelope is sent, just before
  the relayed message, when a parsed line with a session id is handled while no id is
  captured (subprocess mode) and when an \<open>init\<close> message is handled (SDK mode), in both
  cases only while \<open>sessionCreatedSent\<close> is not set.
\<close>

theorem session_created_once:
  "length (filter is_session_created (ws_sent (fst (cli_run P S evs (spawnClaude p sid cmd w))))) =
     (if \<not> truthy sid \<and> truthy (capturedSessionId (fst (cli_run P S evs (spawnClaude p sid cmd w))))
      then 1 else 0) \<and>
   length (filter is_session_created
     (sdk_sent (fst (startClaudeSession en ctrl sid cmd (Launched items e) v)))) =
     (if list_ex is_init items then 1 else 0) \<and>
   filter is_session_created
     (sdk_sent (fst (startClaudeSession en ctrl sid cmd (LaunchError message) v))) = [] \<and>
   (P line = Some obj \<and> truthy (S obj) \<and> \<not> truthy (capturedSessionId u) \<and>
    \<not> sessionCreatedSent u \<longrightarrow>
      ws_sent (fst (handle_line P S line (u, w))) =
        ws_sent u @ [SessionCreated (the (S obj)), ClaudeResponse obj]) \<and>
   (\<not> sdk_sessionCreatedSent su \<longrightarrow>
      sdk_sent (fst (sdk_on_message en (System ''init'' s info) (su, v))) =
        sdk_sent su @ [SessionCreated s, ClaudeResponse (SystemInitData s info)])"
proof -
  let ?u0 = "spawnClaude p sid cmd w :: 'a cli_unit \<times> cli_world"
  have "cli_inv (fst (cli_run P S evs ?u0))"
    using spawn_inv by (rule cli_run_inv)
  moreover have "sessionId (fst (cli_run P S evs ?u0)) = sid"
    using cli_run_fields [of P S evs ?u0] by (simp add: spawnClaude_def new_cli_unit_def)
  ultimately have cli: "length (filter is_session_created (ws_sent (fst (cli_run P S evs ?u0)))) =
     (if \<not> truthy sid \<and> truthy (capturedSessionId (fst (cli_run P S evs ?u0))) then 1 else 0)"
    by (simp add: cli_inv_def)
  let ?r = "sdk_register (sdk_kill_existing (sdk_begin en ctrl sid cmd v))"
  have l: "length (filter is_session_created (sdk_sent (fst (sdk_items en items ?r)))) =
     (if list_ex is_init items then 1 else 0)"
    using sdk_items_latch [of ?r en items] by (simp add: sdk_launched_start)
  have sdk1: "length (filter is_session_created
     (sdk_sent (fst (startClaudeSession en ctrl sid cmd (Launched items e) v)))) =
     (if list_ex is_init items then 1 else 0)"
    using l by (cases "sdk_items en items ?r"; cases e)
      (simp_all add: startClaudeSession_def sdk_finish_def Let_def)
  have sdk2: "filter is_session_created
     (sdk_sent (fst (startClaudeSession en ctrl sid cmd (LaunchError message) v))) = []"
    by (simp add: startClaudeSession_def sdk_launch_failed_def sdk_kill_existing_def sdk_begin_def
          Let_def split: prod.splits option.splits)
  have m1: "P line = Some obj \<and> truthy (S obj) \<and> \<not> truthy (capturedSessionId u) \<and>
    \<not> sessionCreatedSent u \<longrightarrow>
      ws_sent (fst (handle_line P S line (u, w))) =
        ws_sent u @ [SessionCreated (the (S obj)), ClaudeResponse obj]"
    by (simp add: handle_line_def Let_def)
  have m2: "\<not> sdk_sessionCreatedSent su \<longrightarrow>
      sdk_sent (fst (sdk_on_message en (System ''init'' s info) (su, v))) =
        sdk_sent su @ [SessionCreated s, ClaudeResponse (SystemInitData s info)]"
    by (simp add: Let_def split: prod.splits)
  show ?thesis using cli sdk1 sdk2 m1 m2 by blast
qed

text \<open>
  The theorem at a subprocess run in which two lines carry a session id, and at the
  first \<open>init\<close> message of an SDK Unit.
\<close>

theorem session_created_once_witness:
  \<open>example_parse ''{"session_id":"s1"}'' = Some [(''session_id'', ''s1'')] \<and>
   ws_sent (fst (handle_line example_parse example_session_id ''{"session_id":"s1"}''
      (new_cli_unit 1 None ''list files'', cli_empty))) =
     [SessionCreated ''s1'', ClaudeResponse [(''session_id'', ''s1'')]] \<and>
   length (filter is_session_created (ws_sent (fst (cli_run example_parse example_session_id
      [Stdout ''{"session_id":"s1"}\<newline>{"session_id":"s1"}\<newline>'']
      (spawnClaude 1 None ''list files'' cli_empty))))) = 1 \<and>
   sdk_sent (fst (sdk_on_message example_entropy (System ''init'' ''abc'' ''info'')
      (fst (sdk_begin example_entropy 1 None ''list files'' sdk_empty), sdk_empty))) =
     [SessionCreated ''abc'', ClaudeResponse (SystemInitData ''abc'' ''info'')]\<close>
  using session_created_once
    [where P = example_parse and S = example_session_id and p = 1 and sid = None
       and cmd = "''list files''" and w = cli_empty
       and evs = \<open>[Stdout ''{"session_id":"s1"}\<newline>{"session_id":"s1"}\<newline>'']\<close>
       and line = \<open>''{"session_id":"s1"}''\<close> and obj = "[(''session_id'', ''s1'')]"
       and u = "new_cli_unit 1 None ''list files''"
       and su = "fst (sdk_begin example_entropy 1 None ''list files'' sdk_empty)"
       and en = example_entropy and s = "''abc''" and info = "''info''" and v = sdk_empty]
  by (simp add: cli_defs sdk_defs example_defs Let_def)

section \<open>Decoding stdout\<close>

text \<open>
  Claim C3 at the line \<open>{"a":"x y"}\<close>, delivered whole and delivered in two chunks that
  are cut after the space. The held-back piece is stored trimmed (see
  \<open>carried_over_is_trimmed\<close>), so the second decoding parses \<open>{"a":"xy"}\<close> and relays
  another message.
\<close>

theorem chunk_boundary_drops_space:
  \<open>ws_sent (fst (cli_run example_parse example_session_id
       [Stdout ''{"a":"x y"}\<newline>'']
       (spawnClaude 1 None ''list files'' cli_empty))) = [ClaudeResponse [(''a'', ''x y'')]] \<and>
    ws_sent (fst (cli_run example_parse example_session_id
       [Stdout ''{"a":"x '', Stdout ''y"}\<newline>'']
       (spawnClaude 1 None ''list files'' cli_empty))) = [ClaudeResponse [(''a'', ''xy'')]]\<close>
  by (simp add: cli_defs example_defs Let_def)

text \<open>
  Claim C7, as stated, at the line \<open>not json\<close>: nothing is sent on the WebSocket for it,
  no envelope of any kind.
\<close>

theorem unparsable_line_sends_nothing:
  "ws_sent (fst (on_stdout example_parse example_session_id (''not json'' @ [CHR 0x0A])
       (spawnClaude 1 None ''list files'' cli_empty))) = []"
  by (simp add: cli_defs example_defs Let_def)

text \<open>
  Claim C7, amended. A complete line that is not blank and does not parse is written to
  \<open>console.error\<close> and changes nothing else: no envelope is sent, the map is untouched. It is not fatal: the
  loop goes on with the lines that follow and, but for the log, ends in the state and
  with the map it would have reached without that line.
\<close>

theorem unparsable_line_logged:
  "(P line = None \<longrightarrow>
      handle_line P S line (u, w) =
        (u\<lparr>console_error := console_error u @ [''Failed to parse Claude output line: '' @ line]\<rparr>,
         w)) \<and>
   (P (trim l) = None \<and> trim l \<noteq> [] \<and> ls \<noteq> [] \<longrightarrow>
      stdout_loop P S (l # ls) (u, w) =
        stdout_loop P S ls
          (u\<lparr>console_error :=
               console_error u @ [''Failed to parse Claude output line: '' @ trim l]\<rparr>, w) \<and>
      agree_but_log (fst (stdout_loop P S (l # ls) (u, w))) (fst (stdout_loop P S ls (u, w))) \<and>
      snd (stdout_loop P S (l # ls) (u, w)) = snd (stdout_loop P S ls (u, w)))"
proof -
  let ?u = "u\<lparr>console_error :=
               console_error u @ [''Failed to parse Claude output line: '' @ trim l]\<rparr>"
  have a: "P line = None \<longrightarrow>
      handle_line P S line (u, w) =
        (u\<lparr>console_error := console_error u @ [''Failed to parse Claude output line: '' @ line]\<rparr>,
         w)"
    by (simp add: handle_line_def)
  have "agree_but_log ?u u"
    by (simp add: agree_but_log_def)
  then have b: "agree_but_log (fst (stdout_loop P S ls (?u, w))) (fst (stdout_loop P S ls (u, w))) \<and>
      snd (stdout_loop P S ls (?u, w)) = snd (stdout_loop P S ls (u, w))"
    by (rule stdout_loop_agree)
  have c: "P (trim l) = None \<and> trim l \<noteq> [] \<and> ls \<noteq> [] \<longrightarrow>
      stdout_loop P S (l # ls) (u, w) = stdout_loop P S ls (?u, w)"
    by (simp add: handle_line_def Let_def)
  show ?thesis using a b c by simp
qed

text \<open>The theorem at an unparsable line followed by a parsable one.\<close>

theorem unparsable_line_logged_witness:
  \<open>example_parse ''not json'' = None \<and>
   ws_sent (fst (stdout_loop example_parse example_session_id
      [''not json'', ''{"type":"user"}'', '''']
      (new_cli_unit 1 None ''list files'', cli_empty))) = [ClaudeResponse [(''type'', ''user'')]] \<and>
   console_error (fst (stdout_loop example_parse example_session_id
      [''not json'', ''{"type":"user"}'', '''']
      (new_cli_unit 1 None ''list files'', cli_empty))) =
     [''Failed to parse Claude output line: not json'']\<close>
  using unparsable_line_logged
    [where P = example_parse and S = example_session_id and l = "''not json''"
       and line = "''not json''"
       and ls = \<open>[''{"type":"user"}'', '''']\<close>
       and u = "new_cli_unit 1 None ''list files''" and w = cli_empty]
  by (simp add: cli_defs example_defs Let_def)

section \<open>Messages of kind user\<close>

text \<open>
  In SDK mode a message of kind \<open>user\<close> sends nothing and changes nothing. In subprocess
  mode every line that parses, whatever its kind, is relayed: the envelopes sent before
  stay, and a \<open>claude-response\<close> with the parsed object is sent last, after at most
  \<open>session-created\<close> envelopes.
\<close>

lemma user_message_relay:
  "sdk_on_message en (User message) uw = uw \<and>
   (P line = Some obj \<longrightarrow>
      (\<exists>pre. ws_sent (fst (handle_line P S line (u, w))) =
               ws_sent u @ pre @ [ClaudeResponse obj] \<and>
             list_all is_session_created pre))"
  by (cases uw) (simp add: handle_line_def Let_def)

text \<open>
  Claim C8 at a Unit whose only message is of kind \<open>user\<close>, in each mode. The
  subprocess Unit relays it as a \<open>claude-response\<close> envelope; the SDK Unit sends nothing
  for it.
\<close>

theorem cli_relays_user_message:
  \<open>ws_sent (fst (cli_run example_parse example_session_id
       [Stdout ''{"type":"user"}\<newline>'', Close (Some 0)]
       (spawnClaude 1 None ''list files'' cli_empty))) =
     [ClaudeResponse [(''type'', ''user'')], ClaudeComplete (Some 0) True] \<and>
   sdk_sent (fst (startClaudeSession example_entropy 1 None ''list files''
       (Launched [Message (User ''list files'')] Done) sdk_empty)) =
     [ClaudeComplete (Some 0) True]\<close>
  by (simp add: sdk_defs cli_defs example_defs Let_def)

section \<open>The session map\<close>



text \<open>
  Claim C5 at a start request without session id whose query reports the id \<open>abc\<close>.
  The Unit is stored under a first generated id; the \<open>init\<close> branch computes
  \<open>oldSessionId\<close> by running \<open>generateSessionId\<close> again, deletes that other key and
  stores the Unit under \<open>abc\<close>; the end of the call deletes \<open>abc\<close>. The entry under the
  first generated id is still there after the Unit has terminated.
\<close>

theorem provisional_entry_survives:
  "activeSessions (snd (startClaudeSession example_entropy 1 None ''list files''
       (Launched [Message (System ''init'' ''abc'' ''info'')] Done) sdk_empty))
     ''temp-1700000000000-k3j9x0q2a'' = Some 1 \<and>
   activeSessions (snd (startClaudeSession example_entropy 1 None ''list files''
       (Launched [Message (System ''init'' ''abc'' ''info'')] Done) sdk_empty)) ''abc'' = None \<and>
   sdk_sent (fst (startClaudeSession example_entropy 1 None ''list files''
       (Launched [Message (System ''init'' ''abc'' ''info'')] Done) sdk_empty)) =
     [SessionCreated ''abc'', ClaudeResponse (SystemInitData ''abc'' ''info''),
      ClaudeComplete (Some 0) True]"
  by (simp add: sdk_defs example_defs Let_def)

text \<open>
  Claim C6. For every session id: when the map has no entry for it, \<open>abortClaudeSession\<close>
  returns \<open>false\<close> and changes nothing; when it has one, the registered process is killed
  (subprocess mode) or its controller aborted (SDK mode), the entry is removed, every
  other entry stays, and the result is \<open>true\<close>. The function has no other outcome, so it
  never throws.
\<close>

theorem abort_registry:
  "(activeClaudeProcesses w sid = None \<longrightarrow> abortClaudeSession sid w = (False, w)) \<and>
   (\<forall>p. activeClaudeProcesses w sid = Some p \<longrightarrow>
      fst (abortClaudeSession sid w) \<and>
      killed (snd (abortClaudeSession sid w)) = killed w @ [p] \<and>
      activeClaudeProcesses (snd (abortClaudeSession sid w)) sid = None \<and>
      (\<forall>other. other \<noteq> sid \<longrightarrow>
         activeClaudeProcesses (snd (abortClaudeSession sid w)) other =
         activeClaudeProcesses w other)) \<and>
   (activeSessions v sid = None \<longrightarrow> sdk_abortClaudeSession sid v = (False, v)) \<and>
   (\<forall>c. activeSessions v sid = Some c \<longrightarrow>
      fst (sdk_abortClaudeSession sid v) \<and>
      aborted (snd (sdk_abortClaudeSession sid v)) = aborted v @ [c] \<and>
      activeSessions (snd (sdk_abortClaudeSession sid v)) sid = None \<and>
      (\<forall>other. other \<noteq> sid \<longrightarrow>
         activeSessions (snd (sdk_abortClaudeSession sid v)) other = activeSessions v other))"
  by (simp add: abortClaudeSession_def sdk_abortClaudeSession_def)

text \<open>The theorem at a map holding one session, for an absent and for a present id.\<close>

theorem abort_registry_witness:
  "abortClaudeSession ''s2'' \<lparr>activeClaudeProcesses = [''s1'' \<mapsto> 7], killed = []\<rparr> =
     (False, \<lparr>activeClaudeProcesses = [''s1'' \<mapsto> 7], killed = []\<rparr>) \<and>
   fst (abortClaudeSession ''s1'' \<lparr>activeClaudeProcesses = [''s1'' \<mapsto> 7], killed = []\<rparr>) \<and>
   killed (snd (abortClaudeSession ''s1'' \<lparr>activeClaudeProcesses = [''s1'' \<mapsto> 7], killed = []\<rparr>)) = [7] \<and>
   sdk_abortClaudeSession ''s2'' \<lparr>activeSessions = [''s1'' \<mapsto> 7], aborted = [], generated = 0\<rparr> =
     (False, \<lparr>activeSessions = [''s1'' \<mapsto> 7], aborted = [], generated = 0\<rparr>) \<and>
   fst (sdk_abortClaudeSession ''s1'' \<lparr>activeSessions = [''s1'' \<mapsto> 7], aborted = [], generated = 0\<rparr>) \<and>
   aborted (snd (sdk_abortClaudeSession ''s1'' \<lparr>activeSessions = [''s1'' \<mapsto> 7], aborted = [], generated = 0\<rparr>)) = [7]"
  using abort_registry [of "\<lparr>activeClaudeProcesses = [''s1'' \<mapsto> 7], killed = []\<rparr>" "''s2''"
                           "\<lparr>activeSessions = [''s1'' \<mapsto> 7], aborted = [], generated = 0\<rparr>"]
        abort_registry [of "\<lparr>activeClaudeProcesses = [''s1'' \<mapsto> 7], killed = []\<rparr>" "''s1''"
                           "\<lparr>activeSessions = [''s1'' \<mapsto> 7], aborted = [], generated = 0\<rparr>"]
  by simp

text \<open>
  Claim C10. In subprocess mode the only place that stores a Unit in the map is the
  handling of a parsed line with a session id while none is captured. So a process that
  is in no entry at spawn is in none as long as the Unit has sent no \<open>session-created\<close>;
  and when the map is empty at spawn and the caller gave a session id, or no parsed line
  carries one, or none has been handled yet, \<open>abortClaudeSession\<close> returns \<open>false\<close> for
  every id and changes nothing, whatever events the running process has delivered.
\<close>

theorem unregistered_until_session_id:
  "((\<forall>k. activeClaudeProcesses w k \<noteq> Some p) \<and>
    \<not> list_ex is_session_created (ws_sent (fst (cli_run P S evs (spawnClaude p sid cmd w)))) \<longrightarrow>
      (\<forall>k. activeClaudeProcesses (snd (cli_run P S evs (spawnClaude p sid cmd w))) k \<noteq> Some p)) \<and>
   (activeClaudeProcesses w = Map.empty \<and>
    (truthy sid \<or> (\<forall>l output. P l = Some output \<longrightarrow> \<not> truthy (S output)) \<or>
     \<not> list_ex is_session_created (ws_sent (fst (cli_run P S evs (spawnClaude p sid cmd w))))) \<longrightarrow>
      (\<forall>k. abortClaudeSession k (snd (cli_run P S evs (spawnClaude p sid cmd w))) =
            (False, snd (cli_run P S evs (spawnClaude p sid cmd w))))) \<and>
   (activeClaudeProcesses (snd (handle_line P S line (u, w))) \<noteq> activeClaudeProcesses w \<longrightarrow>
      (\<exists>output. P line = Some output \<and> truthy (S output) \<and> \<not> truthy (capturedSessionId u)))"
proof -
  let ?s = "spawnClaude p sid cmd w :: 'a cli_unit \<times> cli_world"
  let ?r = "cli_run P S evs ?s"
  have inv: "cli_inv (fst ?r)"
    using spawn_inv by (rule cli_run_inv)
  have sid: "sessionId (fst ?r) = sid"
    using cli_run_fields [of P S evs ?s] by (simp add: spawnClaude_def new_cli_unit_def)
  have latch: "sessionCreatedSent (fst ?r) \<longleftrightarrow> list_ex is_session_created (ws_sent (fst ?r))"
    using inv by (rule latch_iff_sent)
  have s0: "process (fst ?s) = p" "\<not> sessionCreatedSent (fst ?s)"
    by (simp_all add: spawnClaude_def new_cli_unit_def)
  have a: "(\<forall>k. activeClaudeProcesses w k \<noteq> Some p) \<and>
      \<not> list_ex is_session_created (ws_sent (fst ?r)) \<longrightarrow>
      (\<forall>k. activeClaudeProcesses (snd ?r) k \<noteq> Some p)"
  proof
    assume h: "(\<forall>k. activeClaudeProcesses w k \<noteq> Some p) \<and>
      \<not> list_ex is_session_created (ws_sent (fst ?r))"
    then have "\<forall>k. activeClaudeProcesses (snd ?s) k \<noteq> Some (process (fst ?s))"
      by (simp add: spawnClaude_def new_cli_unit_def cli_kill_existing_def split: option.splits)
    then have "(\<forall>k. activeClaudeProcesses (snd ?r) k \<noteq> Some (process (fst ?s))) \<or>
        sessionCreatedSent (fst ?r)"
      using cli_run_registry [of ?s P S evs] by blast
    then show "\<forall>k. activeClaudeProcesses (snd ?r) k \<noteq> Some p"
      using h latch s0 by simp
  qed
  have b: "activeClaudeProcesses w = Map.empty \<and>
      (truthy sid \<or> (\<forall>l output. P l = Some output \<longrightarrow> \<not> truthy (S output)) \<or>
       \<not> list_ex is_session_created (ws_sent (fst ?r))) \<longrightarrow>
      (\<forall>k. abortClaudeSession k (snd ?r) = (False, snd ?r))"
  proof
    assume h: "activeClaudeProcesses w = Map.empty \<and>
      (truthy sid \<or> (\<forall>l output. P l = Some output \<longrightarrow> \<not> truthy (S output)) \<or>
       \<not> list_ex is_session_created (ws_sent (fst ?r)))"
    then have "activeClaudeProcesses (snd ?s) = Map.empty"
      by (simp add: spawnClaude_def cli_kill_existing_def)
    then have e: "activeClaudeProcesses (snd ?r) = Map.empty \<or> sessionCreatedSent (fst ?r)"
      using cli_run_registry [of ?s P S evs] by blast
    have "\<not> sessionCreatedSent (fst ?r)"
    proof -
      from h consider "truthy sid" | "\<forall>l output. P l = Some output \<longrightarrow> \<not> truthy (S output)"
        | "\<not> list_ex is_session_created (ws_sent (fst ?r))" by blast
      then show ?thesis
      proof cases
        case 1
        then show ?thesis using inv sid by (simp add: cli_inv_def)
      next
        case 2
        then show ?thesis using cli_run_registry [of ?s P S evs] s0 by blast
      next
        case 3
        then show ?thesis using latch by simp
      qed
    qed
    then have "activeClaudeProcesses (snd ?r) = Map.empty" using e by blast
    then show "\<forall>k. abortClaudeSession k (snd ?r) = (False, snd ?r)"
      by (simp add: abortClaudeSession_def)
  qed
  have c: "activeClaudeProcesses (snd (handle_line P S line (u, w))) \<noteq> activeClaudeProcesses w \<longrightarrow>
      (\<exists>output. P line = Some output \<and> truthy (S output) \<and> \<not> truthy (capturedSessionId u))"
    by (auto simp add: handle_line_def Let_def split: option.splits)
  show ?thesis using a b c by blast
qed

text \<open>
  The theorem at a Unit that has relayed a line without session id, and at the line that
  does store it.
\<close>

theorem unregistered_until_session_id_witness:
  \<open>activeClaudeProcesses cli_empty = Map.empty \<and>
   \<not> list_ex is_session_created (ws_sent (fst (cli_run example_parse example_session_id
        [Stdout ''{"type":"user"}\<newline>''] (spawnClaude 1 None ''list files'' cli_empty)))) \<and>
   abortClaudeSession ''s1'' (snd (cli_run example_parse example_session_id
        [Stdout ''{"type":"user"}\<newline>''] (spawnClaude 1 None ''list files'' cli_empty))) =
     (False, cli_empty) \<and>
   example_parse ''{"session_id":"s1"}'' = Some [(''session_id'', ''s1'')] \<and>
   activeClaudeProcesses (snd (handle_line example_parse example_session_id
        ''{"session_id":"s1"}'' (new_cli_unit 1 None ''list files'', cli_empty))) ''s1'' = Some 1\<close>
  using unregistered_until_session_id
    [where P = example_parse and S = example_session_id and p = 1 and sid = None
       and cmd = "''list files''" and w = cli_empty
       and evs = \<open>[Stdout ''{"type":"user"}\<newline>'']\<close>
       and line = \<open>''{"session_id":"s1"}''\<close> and u = "new_cli_unit 1 None ''list files''"]
  by (simp add: cli_defs example_defs Let_def)

section \<open>Attachments\<close>

text \<open>
  Claim C9. An image whose data does not match \<open>data:<mime>;base64,<payload>\<close> is
  skipped: the loop goes on with the next image and the files as they were. Whatever the
  file system does, the files written are an initial part of the files of the well-formed
  images, so none belongs to a malformed one. When the directory can be made and every
  write succeeds, every well-formed image is written, under its own position in the
  list, and its path recorded. When every image is malformed nothing is written and the
  command is handed on unchanged. The block has no failing outcome: it always hands a
  prompt on to the launch.
\<close>

theorem malformed_attachment_skipped:
  "(match_data_url img = None \<longrightarrow>
      save_images W D J dir i (img # images) sb = save_images W D J dir (Suc i) images sb) \<and>
   (\<exists>rest. well_formed_files D J (J [wd, ''.tmp'', ''images'', now]) 0 images =
      written (files (process_images mk W D J wd now cmd images)) @ rest) \<and>
   (mk \<and> (\<forall>path. W path) \<longrightarrow>
      written (files (process_images mk W D J wd now cmd images)) =
        well_formed_files D J (J [wd, ''.tmp'', ''images'', now]) 0 images \<and>
      tempImagePaths (files (process_images mk W D J wd now cmd images)) =
        map fst (well_formed_files D J (J [wd, ''.tmp'', ''images'', now]) 0 images)) \<and>
   ((\<forall>img \<in> set images. match_data_url img = None) \<longrightarrow>
      files (process_images mk W D J wd now cmd images) = \<lparr>tempImagePaths = [], written = []\<rparr> \<and>
      enhancedPrompt (process_images mk W D J wd now cmd images) = cmd)"
proof -
  let ?dir = "J [wd, ''.tmp'', ''images'', now]"
  let ?sb = "\<lparr>tempImagePaths = [], written = []\<rparr>"
  have a: "match_data_url img = None \<longrightarrow>
      save_images W D J dir i (img # images) sb = save_images W D J dir (Suc i) images sb"
    by simp
  have b: "\<exists>rest. well_formed_files D J ?dir 0 images =
      written (files (process_images mk W D J wd now cmd images)) @ rest"
    using save_images_prefix [of ?sb D J ?dir 0 images W]
    by (cases "save_images W D J ?dir 0 images ?sb")
       (simp add: process_images_def Let_def)
  have c: "mk \<and> (\<forall>path. W path) \<longrightarrow>
      written (files (process_images mk W D J wd now cmd images)) =
        well_formed_files D J ?dir 0 images \<and>
      tempImagePaths (files (process_images mk W D J wd now cmd images)) =
        map fst (well_formed_files D J ?dir 0 images)"
  proof
    assume h: "mk \<and> (\<forall>path. W path)"
    then have "save_images W D J ?dir 0 images ?sb =
      (True, ?sb\<lparr>written := written ?sb @ well_formed_files D J ?dir 0 images,
         tempImagePaths := tempImagePaths ?sb @ map fst (well_formed_files D J ?dir 0 images)\<rparr>)"
      using save_images_all [of W D J ?dir 0 images ?sb] by blast
    then show "written (files (process_images mk W D J wd now cmd images)) =
        well_formed_files D J ?dir 0 images \<and>
      tempImagePaths (files (process_images mk W D J wd now cmd images)) =
        map fst (well_formed_files D J ?dir 0 images)"
      using h by (simp add: process_images_def Let_def)
  qed
  have d: "(\<forall>img \<in> set images. match_data_url img = None) \<longrightarrow>
      files (process_images mk W D J wd now cmd images) = ?sb \<and>
      enhancedPrompt (process_images mk W D J wd now cmd images) = cmd"
  proof
    assume "\<forall>img \<in> set images. match_data_url img = None"
    then have "save_images W D J ?dir 0 images ?sb = (True, ?sb)"
      by (rule save_images_none)
    then show "files (process_images mk W D J wd now cmd images) = ?sb \<and>
      enhancedPrompt (process_images mk W D J wd now cmd images) = cmd"
      by (simp add: process_images_def Let_def)
  qed
  show ?thesis using a b c d by blast
qed

text \<open>
  The theorem at a batch of one malformed and one well-formed image, and at a batch of
  one malformed image.
\<close>

theorem malformed_attachment_skipped_witness:
  "match_data_url ''data:image/png,AAAA'' = None \<and>
   written (files (process_images True (\<lambda>path. True) example_decode example_path_join
      ''/proj'' ''1700000000000'' ''describe''
      [''data:image/png,AAAA'', ''data:image/jpeg;base64,QUJD''])) =
     [(''/proj/.tmp/images/1700000000000/image_1.jpeg'', ''QUJD'')] \<and>
   enhancedPrompt (process_images True (\<lambda>path. True) example_decode example_path_join
      ''/proj'' ''1700000000000'' ''describe'' [''data:image/png,AAAA'']) = ''describe''"
  using malformed_attachment_skipped
    [where img = "''data:image/png,AAAA''" and mk = True and W = "\<lambda>path. True"
       and D = example_decode and J = example_path_join and wd = "''/proj''"
       and now = "''1700000000000''" and cmd = "''describe''"
       and images = "[''data:image/png,AAAA'', ''data:image/jpeg;base64,QUJD'']"]
    malformed_attachment_skipped
    [where img = "''data:image/png,AAAA''" and mk = True and W = "\<lambda>path. True"
       and D = example_decode and J = example_path_join and wd = "''/proj''"
       and now = "''1700000000000''" and cmd = "''describe''"
       and images = "[''data:image/png,AAAA'']"]
  by (simp add: match_data_url_def is_line_terminator_def image_path_def extension_of_def
        example_defs Let_def)

end
